theory Spec2Isabelle
  imports Complex_Main "HOL-Library.Multiset"
begin

section \<open>Strings\<close>

text \<open>
  A JavaScript string is modelled as a \<^typ>\<open>string\<close> whose characters are the code units
  U+0000 .. U+00FF (Latin-1).  Every keyword of the categorizer lies in that range; the
  accented letters are written by their code.
\<close>

abbreviation (input) a_acute :: char where "a_acute \<equiv> CHR 0xE1"
abbreviation (input) e_acute :: char where "e_acute \<equiv> CHR 0xE9"
abbreviation (input) i_acute :: char where "i_acute \<equiv> CHR 0xED"
abbreviation (input) o_acute :: char where "o_acute \<equiv> CHR 0xF3"

text \<open>\<^verbatim>\<open>String.prototype.toLowerCase\<close> on Latin-1: A-Z and U+00C0 .. U+00DE (without the
  multiplication sign U+00D7) move up by 32, every other code unit stays.\<close>

definition minuscula :: "char \<Rightarrow> char" where
  "minuscula c =
     (let n = (of_char c :: nat)
      in if (65 \<le> n \<and> n \<le> 90) \<or> (192 \<le> n \<and> n \<le> 222 \<and> n \<noteq> 215)
         then char_of (n + 32) else c)"

definition toLowerCase :: "string \<Rightarrow> string" where
  "toLowerCase s = map minuscula s"

text \<open>\<^verbatim>\<open>String.prototype.trim\<close>: the white space and line terminators of the range are
  TAB, LF, VT, FF, CR, SP and NBSP.\<close>

definition es_espacio :: "char \<Rightarrow> bool" where
  "es_espacio c = ((of_char c :: nat) \<in> {9, 10, 11, 12, 13, 32, 160})"

definition trim :: "string \<Rightarrow> string" where
  "trim s = rev (dropWhile es_espacio (rev (dropWhile es_espacio s)))"

fun startsWith :: "string \<Rightarrow> string \<Rightarrow> bool" where
  "startsWith cs [] = True"
| "startsWith [] (p # ps) = False"
| "startsWith (c # cs) (p # ps) = (c = p \<and> startsWith cs ps)"

text \<open>\<^verbatim>\<open>texto.includes(palabra)\<close>: \<open>palabra\<close> occurs in \<open>texto\<close> at some position.\<close>

fun includes_str :: "string \<Rightarrow> string \<Rightarrow> bool" where
  "includes_str [] palabra = (palabra = [])"
| "includes_str (c # cs) palabra = (startsWith (c # cs) palabra \<or> includes_str cs palabra)"


section \<open>The categorizer (routes/transacciones.js)\<close>

datatype categoria_tx =
  Alimentacion | Transporte | Entretenimiento | Servicios | Salud | Ropa | Educacion | Hogar
  | Otros

text \<open>The object literal \<^verbatim>\<open>categorias\<close>; \<^verbatim>\<open>Object.entries\<close> lists its string keys in the
  order they are written.\<close>

definition categorias :: "(categoria_tx \<times> string list) list" where
  "categorias =
   [(Alimentacion,
      [''comida'', ''restaurante'', ''supermercado'', ''mercado'', ''pizza'', ''hamburguesa'',
       ''caf'' @ [e_acute], ''desayuno'', ''almuerzo'', ''cena'', ''bebida'', ''coca cola'',
       ''agua'', ''pan'', ''panader'' @ i_acute # ''a'', ''carnicer'' @ i_acute # ''a'',
       ''verduler'' @ i_acute # ''a'', ''sushi'', ''delivery'']),
    (Transporte,
      [''transporte'', ''uber'', ''taxi'', ''bus'', ''metro'', ''gasolina'', ''combustible'',
       ''peaje'', ''parking'', ''estacionamiento'', ''motocicleta'', ''bicicleta'',
       ''avi'' @ o_acute # ''n'', ''vuelo'', ''tren'', ''barco'']),
    (Entretenimiento,
      [''cine'', ''ocio'', ''pel'' @ i_acute # ''cula'', ''teatro'', ''concierto'', ''bar'',
       ''discoteca'', ''videojuego'', ''netflix'', ''spotify'', ''streaming'', ''parque'',
       ''diversi'' @ o_acute # ''n'', ''gimnasio'', ''deporte'', ''futbol'', ''basquet'']),
    (Servicios,
      [''luz'', ''agua'', ''internet'', ''tel'' @ e_acute # ''fono'', ''gas'', ''electricidad'',
       ''cable'', ''seguro'', ''banco'', ''notar'' @ i_acute # ''a'', ''abogado'', ''contador'',
       ''limpieza'', ''jardiner'' @ i_acute # ''a'', ''reparaci'' @ o_acute # ''n'']),
    (Salud,
      [''salud'', ''medicina'', ''doctor'', ''m'' @ e_acute # ''dico'', ''hospital'',
       ''cl'' @ i_acute # ''nica'', ''farmacia'', ''pastillas'', ''vitaminas'', ''dentista'',
       ''oftalm'' @ o_acute # ''logo'', ''laboratorio'', ''rayos x'', ''consulta'']),
    (Ropa,
      [''ropa'', ''zapato'', ''camisa'', ''pantal'' @ o_acute # ''n'', ''vestido'', ''tienda'',
       ''boutique'', ''zapater'' @ i_acute # ''a'', ''moda'', ''accesorios'', ''bolso'',
       ''cartera'']),
    (Educacion,
      [''educaci'' @ o_acute # ''n'', ''colegio'', ''universidad'', ''curso'', ''libro'',
       ''cuaderno'', ''l'' @ a_acute # ''piz'', ''material'', ''matr'' @ i_acute # ''cula'',
       ''pensi'' @ o_acute # ''n'', ''tutor'' @ i_acute # ''a'']),
    (Hogar,
      [''hogar'', ''casa'', ''mueble'', ''electrodom'' @ e_acute # ''stico'',
       ''decoraci'' @ o_acute # ''n'', ''herramienta'', ''pintura'',
       ''construcci'' @ o_acute # ''n'', ''alquiler'', ''hipoteca''])]"

text \<open>The \<^verbatim>\<open>for ... of Object.entries(categorias)\<close> loop with its \<^verbatim>\<open>palabras.some(...)\<close>
  test, and the final \<^verbatim>\<open>return 'otros'\<close>.\<close>

fun primera_categoria :: "(categoria_tx \<times> string list) list \<Rightarrow> string \<Rightarrow> categoria_tx" where
  "primera_categoria [] texto = Otros"
| "primera_categoria ((categoria, palabras) # resto) texto =
     (if list_ex (\<lambda>palabra. includes_str texto palabra) palabras then categoria
      else primera_categoria resto texto)"

definition clasificarCategoria :: "string \<Rightarrow> categoria_tx" where
  "clasificarCategoria descripcion =
     (let texto = trim (toLowerCase descripcion) in primera_categoria categorias texto)"


section \<open>Data model (models/meta.js, models/transacciones.js)\<close>

text \<open>
  A \<^verbatim>\<open>Number\<close> that holds an amount of money is modelled as an exact rational: sums,
  differences, comparisons and \<^verbatim>\<open>Math.min\<close> are the exact ones, and the literal
  \<^verbatim>\<open>0.1\<close> is one tenth.  A \<^verbatim>\<open>Date\<close> is its number of milliseconds, an
  \<^verbatim>\<open>ObjectId\<close> a natural number.  The records have the fields the schemas declare;
  the time stamps that the store maintains by itself (\<^verbatim>\<open>createdAt\<close>,
  \<^verbatim>\<open>updatedAt\<close>, from the schema option \<^verbatim>\<open>timestamps\<close>) are left out.
\<close>

datatype prioridad_meta = Baja | Media | Alta

datatype estado_meta = Activa | Completada | Pausada | Cancelada

datatype categoria_meta =
  Ahorro | Vacaciones | Emergencia | Compra | Inversion | EducacionMeta | OtroMeta

datatype frecuencia_recordatorio = Diario | Semanal | Mensual | Nunca

record meta =
  meta_id :: nat
  usuario :: nat
  titulo :: string
  descripcion_meta :: "string option"
  montoObjetivo :: rat
  montoActual :: rat
  fechaInicio :: int
  fechaLimite :: "int option"
  categoria :: categoria_meta
  prioridad :: prioridad_meta
  estado :: estado_meta
  frecuencia :: frecuencia_recordatorio
  proximoRecordatorio :: "int option"

datatype tipo = Ingreso | Gasto

datatype metodo_pago = Efectivo | TarjetaDebito | TarjetaCredito | Transferencia | OtroMetodo

record transaccion =
  tx_id :: nat
  tx_usuario :: nat
  tx_tipo :: tipo
  tx_descripcion :: string
  tx_monto :: rat
  tx_fecha :: int
  tx_categoria :: categoria_tx
  tx_subcategoria :: "string option"
  tx_metodo_pago :: metodo_pago
  tx_notas :: "string option"
  tx_activa :: bool

text \<open>What a rejected promise carries, and the lines written with \<^verbatim>\<open>console.error\<close>.\<close>

datatype error = ValidationError | ErrorAlmacen

datatype linea_consola =
  ErrorActualizandoMetas error
  | ErrorCreandoTransaccion error
  | ErrorActualizandoTransaccion error
  | ErrorAgregandoDinero error

text \<open>The two collections and the console.\<close>

record almacen =
  metas :: "meta list"
  transacciones :: "transaccion list"
  consola :: "linea_consola list"

text \<open>
  The surroundings of a request: which calls to the store are rejected (a lost connection,
  a time-out), and the clock.  A call that is not rejected does what the store documents.
\<close>

datatype operacion =
  FindMetas
  | IncMeta nat
  | FindOneMeta
  | SaveMeta
  | SaveTransaccion
  | FindOneAndUpdateTransaccion
  | Populate

record entorno =
  falla :: "operacion \<Rightarrow> bool"
  ahora :: int


section \<open>The store's sort order\<close>

text \<open>
  \<^verbatim>\<open>prioridad\<close> is a \<^verbatim>\<open>String\<close> field, so \<^verbatim>\<open>sort({ prioridad: -1, fechaLimite: 1 })\<close>
  compares the stored strings, code unit by code unit, and puts the greater string first;
  a document without \<^verbatim>\<open>fechaLimite\<close> sorts as null, which the store places before every
  date in ascending order.  Documents that agree on both keys keep the order of the
  collection.
\<close>

definition prioridad_str :: "prioridad_meta \<Rightarrow> string" where
  "prioridad_str p = (case p of Baja \<Rightarrow> ''baja'' | Media \<Rightarrow> ''media'' | Alta \<Rightarrow> ''alta'')"

fun str_menor :: "string \<Rightarrow> string \<Rightarrow> bool" where
  "str_menor [] [] = False"
| "str_menor [] (b # bs) = True"
| "str_menor (a # as) [] = False"
| "str_menor (a # as) (b # bs) =
     ((of_char a :: nat) < of_char b \<or> (a = b \<and> str_menor as bs))"

fun fecha_menor :: "int option \<Rightarrow> int option \<Rightarrow> bool" where
  "fecha_menor None None = False"
| "fecha_menor None (Some y) = True"
| "fecha_menor (Some x) None = False"
| "fecha_menor (Some x) (Some y) = (x < y)"

definition precede :: "meta \<Rightarrow> meta \<Rightarrow> bool" where
  "precede a b =
     (str_menor (prioridad_str (prioridad b)) (prioridad_str (prioridad a))
      \<or> (prioridad_str (prioridad a) = prioridad_str (prioridad b)
          \<and> fecha_menor (fechaLimite a) (fechaLimite b)))"

fun insertar :: "meta \<Rightarrow> meta list \<Rightarrow> meta list" where
  "insertar m [] = [m]"
| "insertar m (x # xs) = (if precede x m then x # insertar m xs else m # x # xs)"

definition sort_metas :: "meta list \<Rightarrow> meta list" where
  "sort_metas ms = foldr insertar ms []"


section \<open>The goal allocator (routes/transacciones.js)\<close>

text \<open>\<^verbatim>\<open>Meta.find({ usuario, estado: 'activa' }).sort({ prioridad: -1, fechaLimite: 1 })\<close>\<close>

definition Meta_find_activas :: "nat \<Rightarrow> meta list \<Rightarrow> meta list" where
  "Meta_find_activas usuarioId col =
     sort_metas (filter (\<lambda>m. usuario m = usuarioId \<and> estado m = Activa) col)"

text \<open>An update of the document with a given \<^verbatim>\<open>_id\<close>: the first one found.\<close>

fun actualizar_por_id :: "nat \<Rightarrow> (meta \<Rightarrow> meta) \<Rightarrow> meta list \<Rightarrow> meta list" where
  "actualizar_por_id i f [] = []"
| "actualizar_por_id i f (m # ms) =
     (if meta_id m = i then f m # ms else m # actualizar_por_id i f ms)"

text \<open>\<^verbatim>\<open>Meta.findByIdAndUpdate(id, { $inc: { montoActual: montoAAgregar } })\<close>\<close>

definition findByIdAndUpdate_inc :: "nat \<Rightarrow> rat \<Rightarrow> meta list \<Rightarrow> meta list" where
  "findByIdAndUpdate_inc i montoAAgregar col =
     actualizar_por_id i (\<lambda>m. m\<lparr>montoActual := montoActual m + montoAAgregar\<rparr>) col"

text \<open>\<^verbatim>\<open>let montoRestante = montoIngreso * 0.1\<close>\<close>

definition montoRestante_inicial :: "rat \<Rightarrow> rat" where
  "montoRestante_inicial montoIngreso = montoIngreso * (1 / 10)"

text \<open>
  The \<^verbatim>\<open>for (const meta of metasActivas)\<close> loop.  It reads the amounts of the documents
  fetched before the loop and writes to the collection; it returns the collection and
  either the error of a rejected update or the final \<^verbatim>\<open>montoRestante\<close>.  The
  difference \<open>montoObjetivo meta - montoActual meta\<close> is the source's \<^verbatim>\<open>montoFaltante\<close>
  and the minimum is its \<^verbatim>\<open>montoAAgregar\<close>.
\<close>

fun repartir :: "entorno \<Rightarrow> rat \<Rightarrow> meta list \<Rightarrow> meta list \<Rightarrow> (error + rat) \<times> meta list" where
  "repartir env montoRestante [] col = (Inr montoRestante, col)"
| "repartir env montoRestante (meta # resto) col =
     (if montoRestante \<le> 0 then (Inr montoRestante, col)
      else if montoObjetivo meta - montoActual meta \<le> 0
      then repartir env montoRestante resto col
      else if falla env (IncMeta (meta_id meta)) then (Inl ErrorAlmacen, col)
      else repartir env
             (montoRestante - min montoRestante (montoObjetivo meta - montoActual meta))
             resto
             (findByIdAndUpdate_inc (meta_id meta)
                (min montoRestante (montoObjetivo meta - montoActual meta)) col))"

text \<open>The body of the \<^verbatim>\<open>try\<close> block.\<close>

definition cuerpo_actualizarMetas ::
  "entorno \<Rightarrow> nat \<Rightarrow> rat \<Rightarrow> almacen \<Rightarrow> (error + unit) \<times> almacen" where
  "cuerpo_actualizarMetas env usuarioId montoIngreso db =
     (if falla env FindMetas then (Inl ErrorAlmacen, db)
      else
        let metasActivas = Meta_find_activas usuarioId (metas db)
        in case repartir env (montoRestante_inicial montoIngreso) metasActivas (metas db) of
             (Inl e, col) \<Rightarrow> (Inl e, db\<lparr>metas := col\<rparr>)
           | (Inr montoRestante, col) \<Rightarrow> (Inr (), db\<lparr>metas := col\<rparr>))"

text \<open>\<^verbatim>\<open>try { ... } catch (error) { console.error(...) }\<close>: what the caller's
  \<^verbatim>\<open>await\<close> receives, and the store.\<close>

definition actualizarMetasConIngreso ::
  "entorno \<Rightarrow> nat \<Rightarrow> rat \<Rightarrow> almacen \<Rightarrow> (error + unit) \<times> almacen" where
  "actualizarMetasConIngreso env usuarioId montoIngreso db =
     (case cuerpo_actualizarMetas env usuarioId montoIngreso db of
        (Inl e, db') \<Rightarrow> (Inr (), db'\<lparr>consola := consola db' @ [ErrorActualizandoMetas e]\<rparr>)
      | (Inr u, db') \<Rightarrow> (Inr u, db'))"


section \<open>Transaction routes (routes/transacciones.js)\<close>

text \<open>
  The body of a request after JSON parsing.  \<^verbatim>\<open>tipo\<close>, \<^verbatim>\<open>categoria\<close> and
  \<^verbatim>\<open>metodo_pago\<close> are typed by their enumerations, so the \<^verbatim>\<open>isIn\<close> checks of
  \<^verbatim>\<open>validacionTransaccion\<close> hold by construction; what remains are the length of the
  trimmed description and the minimum amount.
\<close>

record solicitud_tx =
  s_tipo :: tipo
  s_descripcion :: string
  s_monto :: rat
  s_fecha :: "int option"
  s_categoria :: "categoria_tx option"
  s_subcategoria :: "string option"
  s_metodo_pago :: "metodo_pago option"
  s_notas :: "string option"

definition validacionTransaccion :: "solicitud_tx \<Rightarrow> bool" where
  "validacionTransaccion req =
     (3 \<le> length (trim (s_descripcion req)) \<and> length (trim (s_descripcion req)) \<le> 200
      \<and> 1 / 100 \<le> s_monto req)"

text \<open>The validators of \<^verbatim>\<open>transaccionSchema\<close>, run by \<^verbatim>\<open>save\<close> and by an update
  with \<^verbatim>\<open>runValidators\<close>.\<close>

definition validar_transaccion :: "int \<Rightarrow> transaccion \<Rightarrow> bool" where
  "validar_transaccion reloj t =
     (tx_descripcion t \<noteq> [] \<and> length (tx_descripcion t) \<le> 200
      \<and> 1 / 100 \<le> tx_monto t
      \<and> tx_fecha t \<le> reloj
      \<and> (case tx_subcategoria t of None \<Rightarrow> True | Some sc \<Rightarrow> length sc \<le> 50)
      \<and> (case tx_notas t of None \<Rightarrow> True | Some n \<Rightarrow> length n \<le> 500))"

definition nuevo_id :: "transaccion list \<Rightarrow> nat" where
  "nuevo_id ts = Suc (fold max (map tx_id ts) 0)"

text \<open>\<^verbatim>\<open>await nuevaTransaccion.save()\<close> of a new document.\<close>

definition Transaccion_save ::
  "entorno \<Rightarrow> transaccion \<Rightarrow> almacen \<Rightarrow> (error + transaccion) \<times> almacen" where
  "Transaccion_save env t db =
     (if \<not> validar_transaccion (ahora env) t then (Inl ValidationError, db)
      else if falla env SaveTransaccion then (Inl ErrorAlmacen, db)
      else
        let guardada = t\<lparr>tx_id := nuevo_id (transacciones db)\<rparr>
        in (Inr guardada, db\<lparr>transacciones := transacciones db @ [guardada]\<rparr>))"

datatype respuesta_tx =
  DatosInvalidos
  | DatosTransaccionInvalidos
  | TransaccionNoEncontrada
  | TransaccionCreada transaccion
  | TransaccionActualizada transaccion
  | ErrorInterno

fun codigo_tx :: "respuesta_tx \<Rightarrow> nat" where
  "codigo_tx DatosInvalidos = 400"
| "codigo_tx DatosTransaccionInvalidos = 400"
| "codigo_tx TransaccionNoEncontrada = 404"
| "codigo_tx (TransaccionCreada t) = 201"
| "codigo_tx (TransaccionActualizada t) = 200"
| "codigo_tx ErrorInterno = 500"

text \<open>The \<^verbatim>\<open>catch\<close> block of \<^verbatim>\<open>POST /\<close>.\<close>

definition capturar_crear :: "error \<Rightarrow> almacen \<Rightarrow> respuesta_tx \<times> almacen" where
  "capturar_crear e db =
     (if e = ValidationError then DatosTransaccionInvalidos else ErrorInterno,
      db\<lparr>consola := consola db @ [ErrorCreandoTransaccion e]\<rparr>)"

text \<open>\<^verbatim>\<open>new Transaccion({ ...otrosDatos, descripcion, categoria: categoriaFinal, usuario })\<close>,
  with the defaults and the \<^verbatim>\<open>trim\<close> setters of the schema; the category is the one of
  the body or, without one, the categorizer's.\<close>

definition nuevaTransaccion :: "entorno \<Rightarrow> nat \<Rightarrow> solicitud_tx \<Rightarrow> transaccion" where
  "nuevaTransaccion env usuarioId req =
     (let descripcion = trim (s_descripcion req);
          categoriaFinal =
            (case s_categoria req of Some c \<Rightarrow> c | None \<Rightarrow> clasificarCategoria descripcion)
      in \<lparr>tx_id = 0, tx_usuario = usuarioId, tx_tipo = s_tipo req,
          tx_descripcion = descripcion, tx_monto = s_monto req,
          tx_fecha = (case s_fecha req of Some f \<Rightarrow> f | None \<Rightarrow> ahora env),
          tx_categoria = categoriaFinal,
          tx_subcategoria = map_option trim (s_subcategoria req),
          tx_metodo_pago = (case s_metodo_pago req of Some mp \<Rightarrow> mp | None \<Rightarrow> Efectivo),
          tx_notas = map_option trim (s_notas req),
          tx_activa = True\<rparr>)"

text \<open>\<^verbatim>\<open>router.post('/', validacionTransaccion, ...)\<close>\<close>

definition crear_transaccion ::
  "entorno \<Rightarrow> nat \<Rightarrow> solicitud_tx \<Rightarrow> almacen \<Rightarrow> respuesta_tx \<times> almacen" where
  "crear_transaccion env usuarioId req db =
     (if \<not> validacionTransaccion req then (DatosInvalidos, db)
      else
        case Transaccion_save env (nuevaTransaccion env usuarioId req) db of
          (Inl e, db1) \<Rightarrow> capturar_crear e db1
        | (Inr transaccionGuardada, db1) \<Rightarrow>
            (case (if tx_tipo transaccionGuardada = Ingreso
                   then actualizarMetasConIngreso env usuarioId
                          (tx_monto transaccionGuardada) db1
                   else (Inr (), db1)) of
               (Inl e, db2) \<Rightarrow> capturar_crear e db2
             | (Inr u, db2) \<Rightarrow>
                 if falla env Populate then capturar_crear ErrorAlmacen db2
                 else (TransaccionCreada transaccionGuardada, db2)))"

text \<open>The \<^verbatim>\<open>catch\<close> block of \<^verbatim>\<open>PUT /:id\<close> (an identifier is well-formed by its type,
  so there is no \<^verbatim>\<open>CastError\<close>).\<close>

definition capturar_actualizar :: "error \<Rightarrow> almacen \<Rightarrow> respuesta_tx \<times> almacen" where
  "capturar_actualizar e db =
     (if e = ValidationError then DatosTransaccionInvalidos else ErrorInterno,
      db\<lparr>consola := consola db @ [ErrorActualizandoTransaccion e]\<rparr>)"

text \<open>
  The update validators of \<^verbatim>\<open>findOneAndUpdate\<close> with \<^verbatim>\<open>runValidators\<close>: they
  run on the fields of the update, before the store is asked.  Those of \<^verbatim>\<open>descripcion\<close>
  and \<^verbatim>\<open>monto\<close> hold once \<^verbatim>\<open>validacionTransaccion\<close> has passed.
\<close>

definition validar_actualizacion :: "int \<Rightarrow> solicitud_tx \<Rightarrow> bool" where
  "validar_actualizacion reloj req =
     ((case s_fecha req of None \<Rightarrow> True | Some f \<Rightarrow> f \<le> reloj)
      \<and> (case s_subcategoria req of None \<Rightarrow> True | Some sc \<Rightarrow> length (trim sc) \<le> 50)
      \<and> (case s_notas req of None \<Rightarrow> True | Some n \<Rightarrow> length (trim n) \<le> 500))"

text \<open>
  \<^verbatim>\<open>router.put('/:id', validacionTransaccion, ...)\<close>: \<^verbatim>\<open>findOneAndUpdate\<close> of the
  caller's active transaction with the fields of the body, then \<^verbatim>\<open>populate\<close>.
\<close>

definition actualizar_transaccion ::
  "entorno \<Rightarrow> nat \<Rightarrow> nat \<Rightarrow> solicitud_tx \<Rightarrow> almacen \<Rightarrow> respuesta_tx \<times> almacen" where
  "actualizar_transaccion env usuarioId i req db =
     (if \<not> validacionTransaccion req then (DatosInvalidos, db)
      else
        let descripcion = trim (s_descripcion req);
            categoriaFinal =
              (case s_categoria req of Some c \<Rightarrow> c | None \<Rightarrow> clasificarCategoria descripcion);
            cambiar = (\<lambda>t. t\<lparr>tx_tipo := s_tipo req,
                tx_descripcion := descripcion,
                tx_monto := s_monto req,
                tx_fecha := (case s_fecha req of Some f \<Rightarrow> f | None \<Rightarrow> tx_fecha t),
                tx_categoria := categoriaFinal,
                tx_subcategoria :=
                  (case s_subcategoria req of Some sc \<Rightarrow> Some (trim sc)
                   | None \<Rightarrow> tx_subcategoria t),
                tx_metodo_pago :=
                  (case s_metodo_pago req of Some mp \<Rightarrow> mp | None \<Rightarrow> tx_metodo_pago t),
                tx_notas :=
                  (case s_notas req of Some n \<Rightarrow> Some (trim n) | None \<Rightarrow> tx_notas t)\<rparr>)
        in if \<not> validar_actualizacion (ahora env) req
           then capturar_actualizar ValidationError db
           else if falla env FindOneAndUpdateTransaccion
           then capturar_actualizar ErrorAlmacen db
           else
             case find (\<lambda>t. tx_id t = i \<and> tx_usuario t = usuarioId \<and> tx_activa t)
                    (transacciones db) of
               None \<Rightarrow> (TransaccionNoEncontrada, db)
             | Some t \<Rightarrow>
                 let db1 = db\<lparr>transacciones :=
                             map (\<lambda>x. if tx_id x = i then cambiar x else x)
                               (transacciones db)\<rparr>
                 in if falla env Populate then capturar_actualizar ErrorAlmacen db1
                    else (TransaccionActualizada (cambiar t), db1))"


section \<open>Manual contribution to a goal (routes/metas.js)\<close>









section \<open>Notions used to state the properties\<close>

text \<open>\<^verbatim>\<open>Meta.findById\<close>, to read a goal back from the collection.\<close>

definition Meta_findById :: "nat \<Rightarrow> meta list \<Rightarrow> meta option" where
  "Meta_findById i col = find (\<lambda>m. meta_id m = i) col"

text \<open>The amount one iteration of the loop adds to a goal when the pool holds
  \<open>montoRestante\<close> (nothing after the \<^verbatim>\<open>break\<close> and for a goal the loop skips), and the
  pool that is left after the loop has gone through a list of goals.\<close>

definition montoAAgregar_de :: "rat \<Rightarrow> meta \<Rightarrow> rat" where
  "montoAAgregar_de montoRestante m =
     (if montoRestante \<le> 0 \<or> montoObjetivo m - montoActual m \<le> 0 then 0
      else min montoRestante (montoObjetivo m - montoActual m))"

fun montoRestante_tras :: "rat \<Rightarrow> meta list \<Rightarrow> rat" where
  "montoRestante_tras r [] = r"
| "montoRestante_tras r (m # ms) = montoRestante_tras (r - montoAAgregar_de r m) ms"

text \<open>A collection assigns every \<^verbatim>\<open>_id\<close> once.\<close>

definition ids_unicos :: "meta list \<Rightarrow> bool" where
  "ids_unicos col = distinct (map meta_id col)"

text \<open>The same surroundings with a store that rejects no call.\<close>

definition sin_fallos :: "entorno \<Rightarrow> entorno" where
  "sin_fallos env = env\<lparr>falla := (\<lambda>op. False)\<rparr>"




section \<open>Example data\<close>

text \<open>Surroundings in which the store answers every call, and one that rejects the update
  of the goal with identifier 2.\<close>

definition entorno_ok :: entorno where
  "entorno_ok = \<lparr>falla = (\<lambda>op. False), ahora = 1000\<rparr>"

definition entorno_falla_2 :: entorno where
  "entorno_falla_2 = \<lparr>falla = (\<lambda>op. op = IncMeta 2), ahora = 1000\<rparr>"

text \<open>Three active goals of user 1: a high-priority one that is nearly full and two empty
  medium-priority ones, the first of them without a deadline.\<close>

definition meta_viaje :: meta where
  "meta_viaje =
     \<lparr>meta_id = 0, usuario = 1, titulo = ''Viaje'', descripcion_meta = None, montoObjetivo = 100, montoActual = 90,
      fechaInicio = 0, fechaLimite = Some 5000, categoria = Vacaciones, prioridad = Alta,
      estado = Activa, frecuencia = Semanal, proximoRecordatorio = None\<rparr>"

definition meta_fondo :: meta where
  "meta_fondo =
     \<lparr>meta_id = 1, usuario = 1, titulo = ''Fondo'', descripcion_meta = None, montoObjetivo = 100, montoActual = 0,
      fechaInicio = 0, fechaLimite = None, categoria = Emergencia, prioridad = Media,
      estado = Activa, frecuencia = Semanal, proximoRecordatorio = None\<rparr>"

definition meta_curso :: meta where
  "meta_curso =
     \<lparr>meta_id = 2, usuario = 1, titulo = ''Curso'', descripcion_meta = None, montoObjetivo = 100, montoActual = 0,
      fechaInicio = 0, fechaLimite = Some 3000, categoria = EducacionMeta, prioridad = Media,
      estado = Activa, frecuencia = Semanal, proximoRecordatorio = None\<rparr>"

definition almacen_ejemplo :: almacen where
  "almacen_ejemplo =
     \<lparr>metas = [meta_viaje, meta_fondo, meta_curso], transacciones = [], consola = []\<rparr>"

text \<open>A store with the nearly full goal alone.\<close>

definition almacen_viaje :: almacen where
  "almacen_viaje = \<lparr>metas = [meta_viaje], transacciones = [], consola = []\<rparr>"

definition solicitud_salario :: "rat \<Rightarrow> solicitud_tx" where
  "solicitud_salario monto =
     \<lparr>s_tipo = Ingreso, s_descripcion = ''Salario de mayo'', s_monto = monto, s_fecha = None,
      s_categoria = None, s_subcategoria = None, s_metodo_pago = None, s_notas = None\<rparr>"


text \<open>A store in which user 1 has the nearly full goal and a paused one, and user 2 an
  active goal.\<close>

definition meta_ajena :: meta where
  "meta_ajena =
     \<lparr>meta_id = 3, usuario = 2, titulo = ''Moto'', descripcion_meta = None, montoObjetivo = 500, montoActual = 20,
      fechaInicio = 0, fechaLimite = None, categoria = Compra, prioridad = Alta,
      estado = Activa, frecuencia = Semanal, proximoRecordatorio = None\<rparr>"

definition meta_pausada :: meta where
  "meta_pausada =
     \<lparr>meta_id = 4, usuario = 1, titulo = ''Piano'', descripcion_meta = None, montoObjetivo = 800, montoActual = 0,
      fechaInicio = 0, fechaLimite = None, categoria = Compra, prioridad = Baja,
      estado = Pausada, frecuencia = Semanal, proximoRecordatorio = None\<rparr>"

definition almacen_mixto :: almacen where
  "almacen_mixto =
     \<lparr>metas = [meta_viaje, meta_ajena, meta_pausada], transacciones = [], consola = []\<rparr>"


definition solicitud_compra :: solicitud_tx where
  "solicitud_compra =
     \<lparr>s_tipo = Gasto, s_descripcion = ''Compra del supermercado'', s_monto = 50,
      s_fecha = None, s_categoria = None, s_subcategoria = None, s_metodo_pago = None,
      s_notas = None\<rparr>"








section \<open>The categorizer returns the first category with a keyword in the text\<close>

lemma startsWith_iff: "startsWith t p \<longleftrightarrow> (\<exists>b. t = p @ b)"
  by (induction t p rule: startsWith.induct) auto

lemma includes_str_iff: "includes_str t p \<longleftrightarrow> (\<exists>a b. t = a @ p @ b)"
proof (induction t)
  case Nil
  show ?case by auto
next
  case (Cons c cs)
  show ?case
  proof
    assume "includes_str (c # cs) p"
    then consider "startsWith (c # cs) p" | "includes_str cs p" by auto
    then show "\<exists>a b. c # cs = a @ p @ b"
    proof cases
      case 1
      then obtain b where "c # cs = p @ b" using startsWith_iff by blast
      then have "c # cs = [] @ p @ b" by simp
      then show ?thesis by blast
    next
      case 2
      then obtain a b where "cs = a @ p @ b" using Cons.IH by blast
      then have "c # cs = (c # a) @ p @ b" by simp
      then show ?thesis by blast
    qed
  next
    assume "\<exists>a b. c # cs = a @ p @ b"
    then obtain a b where ab: "c # cs = a @ p @ b" by blast
    show "includes_str (c # cs) p"
    proof (cases a)
      case Nil
      with ab have "startsWith (c # cs) p" using startsWith_iff by auto
      then show ?thesis by simp
    next
      case (Cons x a')
      with ab have "cs = a' @ p @ b" by simp
      then have "includes_str cs p" using Cons.IH by blast
      then show ?thesis by simp
    qed
  qed
qed

lemma list_ex_includes: "list_ex (\<lambda>palabra. includes_str t palabra) ps \<longleftrightarrow> (\<exists>palabra \<in> set ps. \<exists>a b. t = a @ palabra @ b)"
  by (simp add: list_ex_iff includes_str_iff)

lemma primera_categoria_hit:
  "k < length cs \<Longrightarrow> list_ex (\<lambda>palabra. includes_str t palabra) (snd (cs ! k)) \<Longrightarrow>
   (\<forall>j<k. \<not> list_ex (\<lambda>palabra. includes_str t palabra) (snd (cs ! j))) \<Longrightarrow>
   primera_categoria cs t = fst (cs ! k)"
proof (induction cs arbitrary: k)
  case Nil
  then show ?case by simp
next
  case (Cons cw cs)
  obtain c ws where cw: "cw = (c, ws)" by (cases cw)
  show ?case
  proof (cases k)
    case 0
    with Cons.prems cw show ?thesis by simp
  next
    case (Suc k')
    from Cons.prems(3) Suc have no0: "\<not> list_ex (\<lambda>palabra. includes_str t palabra) ws"
      using cw by fastforce
    have "primera_categoria cs t = fst (cs ! k')"
    proof (rule Cons.IH)
      show "k' < length cs" using Cons.prems(1) Suc by simp
      show "list_ex (\<lambda>palabra. includes_str t palabra) (snd (cs ! k'))" using Cons.prems(2) Suc by simp
      show "\<forall>j<k'. \<not> list_ex (\<lambda>palabra. includes_str t palabra) (snd (cs ! j))"
        using Cons.prems(3) Suc by fastforce
    qed
    with no0 cw Suc show ?thesis by simp
  qed
qed

lemma primera_categoria_miss:
  "(\<forall>cw \<in> set cs. \<not> list_ex (\<lambda>palabra. includes_str t palabra) (snd cw)) \<Longrightarrow>
   primera_categoria cs t = Otros"
  by (induction cs) auto

text \<open>
  Claim C8.  \<open>clasificarCategoria\<close> is a function of the description alone.  It lowercases
  and trims the description and returns the first category, in the declared order
  alimentacion, transporte, entretenimiento, servicios, salud, ropa, educacion, hogar,
  one of whose keywords occurs in the normalized text: a category is returned as soon as
  one of its keywords occurs and no keyword of an earlier category does.  It returns
  otros when no keyword occurs at all, in particular for the empty string.  The keyword
  agua is listed under alimentacion and under servicios, and the earlier category
  wins.
\<close>

theorem clasificarCategoria_primera_coincidencia:
  "map fst categorias =
     [Alimentacion, Transporte, Entretenimiento, Servicios, Salud, Ropa, Educacion, Hogar]
   \<and> (\<forall>k < length categorias.
        (\<exists>palabra \<in> set (snd (categorias ! k)).
            \<exists>a b. trim (toLowerCase descripcion) = a @ palabra @ b)
        \<and> (\<forall>j < k. \<forall>palabra \<in> set (snd (categorias ! j)).
              \<not> (\<exists>a b. trim (toLowerCase descripcion) = a @ palabra @ b))
        \<longrightarrow> clasificarCategoria descripcion = fst (categorias ! k))
   \<and> ((\<forall>cw \<in> set categorias. \<forall>palabra \<in> set (snd cw).
          \<not> (\<exists>a b. trim (toLowerCase descripcion) = a @ palabra @ b))
        \<longrightarrow> clasificarCategoria descripcion = Otros)
   \<and> clasificarCategoria [] = Otros
   \<and> ''agua'' \<in> set (snd (categorias ! 0)) \<and> ''agua'' \<in> set (snd (categorias ! 3))
   \<and> clasificarCategoria ''agua'' = Alimentacion
   \<and> clasificarCategoria ''  Cena en RESTAURANTE  '' = Alimentacion"
proof -
  let ?t = "trim (toLowerCase descripcion)"
  have orden: "map fst categorias =
     [Alimentacion, Transporte, Entretenimiento, Servicios, Salud, Ropa, Educacion, Hogar]"
    by (simp add: categorias_def)
  have hit: "\<forall>k < length categorias.
        (\<exists>palabra \<in> set (snd (categorias ! k)). \<exists>a b. ?t = a @ palabra @ b)
        \<and> (\<forall>j < k. \<forall>palabra \<in> set (snd (categorias ! j)). \<not> (\<exists>a b. ?t = a @ palabra @ b))
        \<longrightarrow> clasificarCategoria descripcion = fst (categorias ! k)"
  proof (intro allI impI)
    fix k
    assume k: "k < length categorias"
    assume h: "(\<exists>palabra \<in> set (snd (categorias ! k)). \<exists>a b. ?t = a @ palabra @ b)
        \<and> (\<forall>j < k. \<forall>palabra \<in> set (snd (categorias ! j)). \<not> (\<exists>a b. ?t = a @ palabra @ b))"
    from h have 1: "list_ex (\<lambda>palabra. includes_str ?t palabra) (snd (categorias ! k))"
      unfolding list_ex_includes by blast
    from h have 2: "\<forall>j<k. \<not> list_ex (\<lambda>palabra. includes_str ?t palabra) (snd (categorias ! j))"
      unfolding list_ex_includes by blast
    from primera_categoria_hit [OF k 1 2]
    show "clasificarCategoria descripcion = fst (categorias ! k)"
      by (simp add: clasificarCategoria_def)
  qed
  have miss: "(\<forall>cw \<in> set categorias. \<forall>palabra \<in> set (snd cw). \<not> (\<exists>a b. ?t = a @ palabra @ b))
        \<longrightarrow> clasificarCategoria descripcion = Otros"
  proof
    assume h: "\<forall>cw \<in> set categorias. \<forall>palabra \<in> set (snd cw). \<not> (\<exists>a b. ?t = a @ palabra @ b)"
    then have "\<forall>cw \<in> set categorias. \<not> list_ex (\<lambda>palabra. includes_str ?t palabra) (snd cw)"
      unfolding list_ex_includes by blast
    from primera_categoria_miss [OF this]
    show "clasificarCategoria descripcion = Otros"
      by (simp add: clasificarCategoria_def)
  qed
  have vacio: "clasificarCategoria [] = Otros" by code_simp
  have agua_en: "''agua'' \<in> set (snd (categorias ! 0)) \<and> ''agua'' \<in> set (snd (categorias ! 3))"
    by (simp add: categorias_def)
  have agua: "clasificarCategoria ''agua'' = Alimentacion" by code_simp
  have cena: "clasificarCategoria ''  Cena en RESTAURANTE  '' = Alimentacion" by code_simp
  from orden hit miss vacio agua_en agua cena show ?thesis by blast
qed

text \<open>The theorem at two descriptions: one with a keyword of the second category only, one
  without any keyword.\<close>

theorem clasificarCategoria_primera_coincidencia_witness:
  "1 < length categorias
   \<and> (\<exists>palabra \<in> set (snd (categorias ! 1)).
          \<exists>a b. trim (toLowerCase '' Taxi al centro'') = a @ palabra @ b)
   \<and> \<not> (\<exists>palabra \<in> set (snd (categorias ! 0)).
          \<exists>a b. trim (toLowerCase '' Taxi al centro'') = a @ palabra @ b)
   \<and> clasificarCategoria '' Taxi al centro'' = Transporte
   \<and> \<not> (\<exists>cw \<in> set categorias. \<exists>palabra \<in> set (snd cw).
          \<exists>a b. trim (toLowerCase ''Regalo'') = a @ palabra @ b)
   \<and> clasificarCategoria ''Regalo'' = Otros"
proof -
  have t: "trim (toLowerCase '' Taxi al centro'') = ''taxi al centro''" by code_simp
  have len: "1 < length categorias" by (simp add: categorias_def)
  have c1: "fst (categorias ! 1) = Transporte" by (simp add: categorias_def)
  have h1: "\<exists>palabra \<in> set (snd (categorias ! 1)).
          \<exists>a b. trim (toLowerCase '' Taxi al centro'') = a @ palabra @ b"
  proof -
    have "list_ex (\<lambda>palabra. includes_str ''taxi al centro'' palabra) (snd (categorias ! 1))"
      by code_simp
    then show ?thesis unfolding t list_ex_includes .
  qed
  have h2: "\<not> (\<exists>palabra \<in> set (snd (categorias ! 0)).
          \<exists>a b. trim (toLowerCase '' Taxi al centro'') = a @ palabra @ b)"
  proof -
    have "\<not> list_ex (\<lambda>palabra. includes_str ''taxi al centro'' palabra) (snd (categorias ! 0))"
      by code_simp
    then show ?thesis unfolding t list_ex_includes .
  qed
  then have h2': "\<forall>j < 1. \<forall>palabra \<in> set (snd (categorias ! j)).
          \<not> (\<exists>a b. trim (toLowerCase '' Taxi al centro'') = a @ palabra @ b)"
    by auto
  have r: "trim (toLowerCase ''Regalo'') = ''regalo''" by code_simp
  have h3: "\<not> (\<exists>cw \<in> set categorias. \<exists>palabra \<in> set (snd cw).
          \<exists>a b. trim (toLowerCase ''Regalo'') = a @ palabra @ b)"
  proof -
    have "list_all (\<lambda>cw. \<not> list_ex (\<lambda>palabra. includes_str ''regalo'' palabra) (snd cw)) categorias"
      by code_simp
    then show ?thesis unfolding r list_ex_includes list_all_iff by blast
  qed
  then have h3': "\<forall>cw \<in> set categorias. \<forall>palabra \<in> set (snd cw).
          \<not> (\<exists>a b. trim (toLowerCase ''Regalo'') = a @ palabra @ b)"
    by blast
  from clasificarCategoria_primera_coincidencia [of "'' Taxi al centro''"] len h1 h2' c1
  have w1: "clasificarCategoria '' Taxi al centro'' = Transporte" by metis
  from clasificarCategoria_primera_coincidencia [of "''Regalo''"] h3'
  have w2: "clasificarCategoria ''Regalo'' = Otros" by blast
  from len h1 h2 w1 h3 w2 show ?thesis by blast
qed


section \<open>The processing order of the allocator\<close>










lemma mset_insertar: "mset (insertar m xs) = add_mset m (mset xs)"
  by (induction xs) auto

lemma mset_sort_metas: "mset (sort_metas ms) = mset ms"
  by (induction ms) (auto simp: sort_metas_def mset_insertar)


lemma set_sort_metas: "set (sort_metas ms) = set ms"
  using mset_sort_metas [of ms] by (metis set_mset_mset)



lemma mset_Meta_find_activas:
  "mset (Meta_find_activas u col) = mset (filter (\<lambda>m. usuario m = u \<and> estado m = Activa) col)"
  by (simp add: Meta_find_activas_def mset_sort_metas)

lemma set_Meta_find_activas:
  "set (Meta_find_activas u col) = {m \<in> set col. usuario m = u \<and> estado m = Activa}"
  by (simp add: Meta_find_activas_def set_sort_metas)

lemma distinct_Meta_find_activas:
  "ids_unicos col \<Longrightarrow> ids_unicos (Meta_find_activas u col)"
proof -
  assume d: "ids_unicos col"
  have "mset (map meta_id (Meta_find_activas u col))
        = mset (map meta_id (filter (\<lambda>m. usuario m = u \<and> estado m = Activa) col))"
    using mset_Meta_find_activas [of u col] by (metis mset_map)
  moreover have "distinct (map meta_id (filter (\<lambda>m. usuario m = u \<and> estado m = Activa) col))"
    using d by (simp add: ids_unicos_def distinct_map_filter)
  ultimately show ?thesis
    unfolding ids_unicos_def by (metis mset_eq_imp_distinct_iff)
qed



section \<open>The loop of the allocator\<close>





lemma montoRestante_tras_agotado: "r \<le> 0 \<Longrightarrow> montoRestante_tras r ms = r"
  by (induction ms arbitrary: r) (auto simp: montoAAgregar_de_def)








section \<open>Updates of the collection\<close>

lemma Meta_findById_actualizar:
  "(\<And>x. meta_id (f x) = meta_id x) \<Longrightarrow>
   Meta_findById j (actualizar_por_id i f col)
     = (if j = i then map_option f (Meta_findById j col) else Meta_findById j col)"
  by (induction col) (auto simp: Meta_findById_def)

lemma Meta_findById_inc:
  "Meta_findById j (findByIdAndUpdate_inc i a col)
     = (if j = i then map_option (\<lambda>x. x\<lparr>montoActual := montoActual x + a\<rparr>) (Meta_findById j col)
        else Meta_findById j col)"
  unfolding findByIdAndUpdate_inc_def by (rule Meta_findById_actualizar) simp



lemma marco_inc:
  "map (\<lambda>m. m\<lparr>montoActual := 0\<rparr>) (findByIdAndUpdate_inc i a col)
     = map (\<lambda>m. m\<lparr>montoActual := 0\<rparr>) col"
  unfolding findByIdAndUpdate_inc_def by (induction col) auto


lemma Meta_findById_Some:
  "ids_unicos col \<Longrightarrow> m \<in> set col \<Longrightarrow> Meta_findById (meta_id m) col = Some m"
  unfolding ids_unicos_def Meta_findById_def
  by (induction col) (auto simp: image_iff)


section \<open>What the loop does to the collection\<close>

lemma repartir_marco:
  "map (\<lambda>m. m\<lparr>montoActual := 0\<rparr>) (snd (repartir env r ms col))
     = map (\<lambda>m. m\<lparr>montoActual := 0\<rparr>) col"
  by (induction ms arbitrary: r col) (auto simp: marco_inc)


lemma repartir_otros:
  "i \<notin> meta_id ` set ms \<Longrightarrow>
   Meta_findById i (snd (repartir env r ms col)) = Meta_findById i col"
  by (induction ms arbitrary: r col) (auto simp: Meta_findById_inc)

lemma repartir_aporte:
  assumes nf: "\<And>i. \<not> falla env (IncMeta i)"
  shows "distinct (map meta_id ms) \<Longrightarrow> k < length ms \<Longrightarrow>
    Meta_findById (meta_id (ms ! k)) (snd (repartir env r ms col))
      = map_option
          (\<lambda>x. x\<lparr>montoActual :=
                   montoActual x + montoAAgregar_de (montoRestante_tras r (take k ms)) (ms ! k)\<rparr>)
          (Meta_findById (meta_id (ms ! k)) col)"
proof (induction ms arbitrary: r col k)
  case Nil
  then show ?case by simp
next
  case (Cons m ms)
  have id_m: "meta_id m \<notin> meta_id ` set ms" using Cons.prems(1) by auto
  have dist: "distinct (map meta_id ms)" using Cons.prems(1) by simp
  show ?case
  proof (cases "r \<le> 0")
    case True
    then have "montoAAgregar_de (montoRestante_tras r (take k (m # ms))) ((m # ms) ! k) = 0"
      by (simp add: montoRestante_tras_agotado montoAAgregar_de_def)
    with True show ?thesis by (simp add: option.map_ident)
  next
    case False
    note pos = this
    show ?thesis
    proof (cases k)
      case 0
      show ?thesis
      proof (cases "montoObjetivo m - montoActual m \<le> 0")
        case True
        with pos 0 id_m show ?thesis
          by (simp add: repartir_otros montoAAgregar_de_def option.map_ident)
      next
        case False
        with pos 0 id_m nf show ?thesis
          by (simp add: repartir_otros montoAAgregar_de_def Meta_findById_inc)
      qed
    next
      case (Suc k')
      then have k': "k' < length ms" using Cons.prems(2) by simp
      then have ne: "meta_id (ms ! k') \<noteq> meta_id m" using id_m by (metis imageI nth_mem)
      show ?thesis
      proof (cases "montoObjetivo m - montoActual m \<le> 0")
        case True
        with pos Suc Cons.IH [OF dist k', of r col] show ?thesis
          by (simp add: montoAAgregar_de_def)
      next
        case False
        with pos Suc nf ne
          Cons.IH [OF dist k', of "r - min r (montoObjetivo m - montoActual m)"
            "findByIdAndUpdate_inc (meta_id m) (min r (montoObjetivo m - montoActual m)) col"]
        show ?thesis
          by (simp add: montoAAgregar_de_def Meta_findById_inc)
      qed
    qed
  qed
qed


section \<open>A rejected update\<close>

lemma falla_sin_fallos: "\<not> falla (sin_fallos env) op"
  by (simp add: sin_fallos_def)

lemma repartir_sin_error:
  "fst (repartir env r ms col) = Inr x \<Longrightarrow>
   repartir env r ms col = repartir (sin_fallos env) r ms col"
  by (induction ms arbitrary: r col) (auto simp: falla_sin_fallos split: if_splits)

lemma repartir_fallo:
  "fst (repartir env r ms col) = Inl e \<Longrightarrow>
   \<exists>k<length ms. falla env (IncMeta (meta_id (ms ! k))) \<and> e = ErrorAlmacen
      \<and> snd (repartir env r ms col) = snd (repartir (sin_fallos env) r (take k ms) col)
      \<and> 0 < montoRestante_tras r (take k ms)
      \<and> montoActual (ms ! k) < montoObjetivo (ms ! k)"
proof (induction ms arbitrary: r col)
  case Nil
  then show ?case by simp
next
  case (Cons m ms)
  from Cons.prems have pos: "\<not> r \<le> 0" by (auto split: if_splits)
  show ?case
  proof (cases "montoObjetivo m - montoActual m \<le> 0")
    case True
    with pos Cons.prems have "fst (repartir env r ms col) = Inl e" by simp
    from Cons.IH [OF this] obtain k where k: "k < length ms"
      "falla env (IncMeta (meta_id (ms ! k)))" "e = ErrorAlmacen"
      "snd (repartir env r ms col) = snd (repartir (sin_fallos env) r (take k ms) col)"
      "0 < montoRestante_tras r (take k ms)" "montoActual (ms ! k) < montoObjetivo (ms ! k)"
      by blast
    with True pos have "Suc k < length (m # ms) \<and> falla env (IncMeta (meta_id ((m # ms) ! Suc k)))
      \<and> e = ErrorAlmacen
      \<and> snd (repartir env r (m # ms) col) = snd (repartir (sin_fallos env) r (take (Suc k) (m # ms)) col)
      \<and> 0 < montoRestante_tras r (take (Suc k) (m # ms))
      \<and> montoActual ((m # ms) ! Suc k) < montoObjetivo ((m # ms) ! Suc k)"
      by (simp add: montoAAgregar_de_def)
    then show ?thesis by blast
  next
    case False
    note cap = this
    show ?thesis
    proof (cases "falla env (IncMeta (meta_id m))")
      case True
      with pos cap Cons.prems have "0 < length (m # ms) \<and> falla env (IncMeta (meta_id ((m # ms) ! 0)))
        \<and> e = ErrorAlmacen
        \<and> snd (repartir env r (m # ms) col) = snd (repartir (sin_fallos env) r (take 0 (m # ms)) col)
        \<and> 0 < montoRestante_tras r (take 0 (m # ms))
        \<and> montoActual ((m # ms) ! 0) < montoObjetivo ((m # ms) ! 0)"
        by auto
      then show ?thesis by blast
    next
      case False
      let ?a = "min r (montoObjetivo m - montoActual m)"
      let ?col = "findByIdAndUpdate_inc (meta_id m) ?a col"
      from False pos cap Cons.prems have "fst (repartir env (r - ?a) ms ?col) = Inl e" by simp
      from Cons.IH [OF this] obtain k where k: "k < length ms"
        "falla env (IncMeta (meta_id (ms ! k)))" "e = ErrorAlmacen"
        "snd (repartir env (r - ?a) ms ?col) = snd (repartir (sin_fallos env) (r - ?a) (take k ms) ?col)"
        "0 < montoRestante_tras (r - ?a) (take k ms)" "montoActual (ms ! k) < montoObjetivo (ms ! k)"
        by blast
      with False pos cap have "Suc k < length (m # ms) \<and> falla env (IncMeta (meta_id ((m # ms) ! Suc k)))
        \<and> e = ErrorAlmacen
        \<and> snd (repartir env r (m # ms) col) = snd (repartir (sin_fallos env) r (take (Suc k) (m # ms)) col)
        \<and> 0 < montoRestante_tras r (take (Suc k) (m # ms))
        \<and> montoActual ((m # ms) ! Suc k) < montoObjetivo ((m # ms) ! Suc k)"
        by (simp add: montoAAgregar_de_def falla_sin_fallos)
      then show ?thesis by blast
    qed
  qed
qed


section \<open>The allocator as a whole\<close>

lemma actualizarMetas_resultado: "fst (actualizarMetasConIngreso env u mi db) = Inr ()"
  by (simp add: actualizarMetasConIngreso_def split: prod.splits sum.splits)

lemma actualizarMetas_metas:
  "metas (snd (actualizarMetasConIngreso env u mi db))
     = (if falla env FindMetas then metas db
        else snd (repartir env (montoRestante_inicial mi)
                    (Meta_find_activas u (metas db)) (metas db)))"
  by (simp add: actualizarMetasConIngreso_def cuerpo_actualizarMetas_def
      split: prod.splits sum.splits)

lemma actualizarMetas_transacciones:
  "transacciones (snd (actualizarMetasConIngreso env u mi db)) = transacciones db"
  by (simp add: actualizarMetasConIngreso_def cuerpo_actualizarMetas_def
      split: prod.splits sum.splits)


lemma ids_activas_distintos:
  "ids_unicos col \<Longrightarrow> distinct (map meta_id (Meta_find_activas u col))"
  using distinct_Meta_find_activas [of col u] by (simp add: ids_unicos_def)













section \<open>The size of the pool and its conservation\<close>

text \<open>The allocator is called from \<^verbatim>\<open>POST /\<close> only, with the amount of a saved
  transaction, which is at least 0.01.\<close>

lemma crear_transaccion_monto:
  "fst (crear_transaccion env u req db) = TransaccionCreada t \<Longrightarrow>
   1 / 100 \<le> tx_monto t \<and> tx_monto t = s_monto req"
  by (auto simp: crear_transaccion_def Transaccion_save_def capturar_crear_def
      validacionTransaccion_def nuevaTransaccion_def Let_def
      split: if_splits prod.splits sum.splits)







section \<open>What the allocator leaves alone\<close>

lemma actualizarMetas_marco:
  "map (\<lambda>m. m\<lparr>montoActual := 0\<rparr>) (metas (snd (actualizarMetasConIngreso env u mi db)))
     = map (\<lambda>m. m\<lparr>montoActual := 0\<rparr>) (metas db)"
  by (simp add: actualizarMetas_metas repartir_marco)

lemma actualizarMetas_otras:
  assumes ids: "ids_unicos (metas db)"
    and m: "m \<in> set (metas db)" "\<not> (usuario m = u \<and> estado m = Activa)"
  shows "Meta_findById (meta_id m) (metas (snd (actualizarMetasConIngreso env u mi db))) = Some m"
proof -
  let ?ms = "Meta_find_activas u (metas db)"
  have "meta_id m \<notin> meta_id ` set ?ms"
  proof
    assume "meta_id m \<in> meta_id ` set ?ms"
    then obtain g where g: "g \<in> set ?ms" "meta_id g = meta_id m" by auto
    then have gin: "g \<in> set (metas db)" "usuario g = u \<and> estado g = Activa"
      using set_Meta_find_activas [of u "metas db"] by auto
    have "Some g = Meta_findById (meta_id g) (metas db)"
      by (simp only: Meta_findById_Some [OF ids gin(1)])
    also have "\<dots> = Meta_findById (meta_id m) (metas db)" by (simp only: g(2))
    also have "\<dots> = Some m" by (rule Meta_findById_Some [OF ids m(1)])
    finally have "g = m" by (simp only: option.inject)
    with gin(2) m(2) show False by simp
  qed
  then have "Meta_findById (meta_id m) (metas (snd (actualizarMetasConIngreso env u mi db)))
             = Meta_findById (meta_id m) (metas db)"
    by (simp add: actualizarMetas_metas repartir_otros)
  with Meta_findById_Some [OF ids m(1)] show ?thesis by simp
qed

text \<open>
  Claim C6.  Frame of the allocator.  In every run, whatever the store rejects, the
  allocator creates no transaction record; every goal keeps all its fields but
  \<open>montoActual\<close>, in particular its \<open>estado\<close>; and a goal that is not an active goal of
  the user is left as it was.  A goal whose current amount reaches its target through the
  allocator therefore stays active: the nearly full goal of the example is filled to its
  target by an income of 1000 and is still \<open>Activa\<close>.
\<close>

theorem asignacion_solo_cambia_montoActual:
  "transacciones (snd (actualizarMetasConIngreso env u montoIngreso db)) = transacciones db
   \<and> map (\<lambda>m. m\<lparr>montoActual := 0\<rparr>)
         (metas (snd (actualizarMetasConIngreso env u montoIngreso db)))
       = map (\<lambda>m. m\<lparr>montoActual := 0\<rparr>) (metas db)
   \<and> map estado (metas (snd (actualizarMetasConIngreso env u montoIngreso db)))
       = map estado (metas db)
   \<and> (ids_unicos (metas db) \<longrightarrow>
        (\<forall>m \<in> set (metas db). \<not> (usuario m = u \<and> estado m = Activa) \<longrightarrow>
           Meta_findById (meta_id m)
             (metas (snd (actualizarMetasConIngreso env u montoIngreso db))) = Some m))
   \<and> Meta_findById 0 (metas (snd (actualizarMetasConIngreso entorno_ok 1 1000 almacen_viaje)))
       = Some (meta_viaje\<lparr>montoActual := montoObjetivo meta_viaje\<rparr>)
   \<and> estado (meta_viaje\<lparr>montoActual := montoObjetivo meta_viaje\<rparr>) = Activa"
proof -
  let ?db' = "snd (actualizarMetasConIngreso env u montoIngreso db)"
  have 1: "transacciones ?db' = transacciones db" by (rule actualizarMetas_transacciones)
  have 2: "map (\<lambda>m. m\<lparr>montoActual := 0\<rparr>) (metas ?db')
           = map (\<lambda>m. m\<lparr>montoActual := 0\<rparr>) (metas db)"
    by (rule actualizarMetas_marco)
  have "map (\<lambda>m. estado (m\<lparr>montoActual := 0\<rparr>)) (metas ?db')
        = map (\<lambda>m. estado (m\<lparr>montoActual := 0\<rparr>)) (metas db)"
    using arg_cong [OF 2, of "map estado"] by (simp only: map_map o_def)
  then have 3: "map estado (metas ?db') = map estado (metas db)" by simp
  have 4: "ids_unicos (metas db) \<longrightarrow>
        (\<forall>m \<in> set (metas db). \<not> (usuario m = u \<and> estado m = Activa) \<longrightarrow>
           Meta_findById (meta_id m) (metas ?db') = Some m)"
    using actualizarMetas_otras by blast
  have 5: "Meta_findById 0 (metas (snd (actualizarMetasConIngreso entorno_ok 1 1000 almacen_viaje)))
       = Some (meta_viaje\<lparr>montoActual := montoObjetivo meta_viaje\<rparr>)"
    by code_simp
  have 6: "estado (meta_viaje\<lparr>montoActual := montoObjetivo meta_viaje\<rparr>) = Activa"
    by (simp add: meta_viaje_def)
  from 1 2 3 4 5 6 show ?thesis by blast
qed


theorem asignacion_solo_cambia_montoActual_witness:
  "ids_unicos (metas almacen_mixto)
   \<and> meta_ajena \<in> set (metas almacen_mixto)
   \<and> \<not> (usuario meta_ajena = 1 \<and> estado meta_ajena = Activa)
   \<and> Meta_findById (meta_id meta_ajena)
        (metas (snd (actualizarMetasConIngreso entorno_ok 1 1000 almacen_mixto)))
       = Some meta_ajena
   \<and> meta_pausada \<in> set (metas almacen_mixto)
   \<and> \<not> (usuario meta_pausada = 1 \<and> estado meta_pausada = Activa)
   \<and> Meta_findById (meta_id meta_pausada)
        (metas (snd (actualizarMetasConIngreso entorno_ok 1 1000 almacen_mixto)))
       = Some meta_pausada"
proof -
  have h1: "ids_unicos (metas almacen_mixto)" by code_simp
  have h2: "meta_ajena \<in> set (metas almacen_mixto)" by (simp add: almacen_mixto_def)
  have h3: "\<not> (usuario meta_ajena = 1 \<and> estado meta_ajena = Activa)"
    by (simp add: meta_ajena_def)
  have h4: "meta_pausada \<in> set (metas almacen_mixto)" by (simp add: almacen_mixto_def)
  have h5: "\<not> (usuario meta_pausada = 1 \<and> estado meta_pausada = Activa)"
    by (simp add: meta_pausada_def)
  note t = asignacion_solo_cambia_montoActual [of entorno_ok 1 1000 almacen_mixto]
  from t h1 h2 h3 have c1: "Meta_findById (meta_id meta_ajena)
        (metas (snd (actualizarMetasConIngreso entorno_ok 1 1000 almacen_mixto)))
       = Some meta_ajena" by blast
  from t h1 h4 h5 have c2: "Meta_findById (meta_id meta_pausada)
        (metas (snd (actualizarMetasConIngreso entorno_ok 1 1000 almacen_mixto)))
       = Some meta_pausada" by blast
  from h1 h2 h3 c1 h4 h5 c2 show ?thesis by blast
qed


section \<open>Creating and updating a transaction\<close>

lemma crear_transaccion_creada:
  assumes val: "validacionTransaccion req"
    and esq: "validar_transaccion (ahora env) (nuevaTransaccion env u req)"
    and nf: "\<not> falla env SaveTransaccion" "\<not> falla env Populate"
  shows "crear_transaccion env u req db =
    (TransaccionCreada ((nuevaTransaccion env u req)\<lparr>tx_id := nuevo_id (transacciones db)\<rparr>),
     if s_tipo req = Ingreso
     then snd (actualizarMetasConIngreso env u (s_monto req)
            (db\<lparr>transacciones := transacciones db
               @ [(nuevaTransaccion env u req)\<lparr>tx_id := nuevo_id (transacciones db)\<rparr>]\<rparr>))
     else db\<lparr>transacciones := transacciones db
               @ [(nuevaTransaccion env u req)\<lparr>tx_id := nuevo_id (transacciones db)\<rparr>]\<rparr>)"
proof -
  let ?t = "(nuevaTransaccion env u req)\<lparr>tx_id := nuevo_id (transacciones db)\<rparr>"
  let ?db1 = "db\<lparr>transacciones := transacciones db @ [?t]\<rparr>"
  have tipo: "tx_tipo ?t = s_tipo req" and monto: "tx_monto ?t = s_monto req"
    by (simp_all add: nuevaTransaccion_def Let_def)
  have save: "Transaccion_save env (nuevaTransaccion env u req) db = (Inr ?t, ?db1)"
    using esq nf(1) by (simp add: Transaccion_save_def Let_def)
  obtain x db2 where p: "actualizarMetasConIngreso env u (s_monto req) ?db1 = (x, db2)"
    by (cases "actualizarMetasConIngreso env u (s_monto req) ?db1")
  have x: "x = Inr ()" using actualizarMetas_resultado [of env u "s_monto req" ?db1] p by simp
  show ?thesis
  proof (cases "s_tipo req = Ingreso")
    case True
    then show ?thesis
      using val nf(2) p x
      by (simp add: crear_transaccion_def save tipo monto)
  next
    case False
    then show ?thesis
      using val nf(2)
      by (simp add: crear_transaccion_def save tipo monto)
  qed
qed

lemma actualizarMetas_consola:
  "consola (snd (actualizarMetasConIngreso env u mi db))
     = (if falla env FindMetas then consola db @ [ErrorActualizandoMetas ErrorAlmacen]
        else case fst (repartir env (montoRestante_inicial mi)
                         (Meta_find_activas u (metas db)) (metas db)) of
               Inl e \<Rightarrow> consola db @ [ErrorActualizandoMetas e]
             | Inr r \<Rightarrow> consola db)"
  by (simp add: actualizarMetasConIngreso_def cuerpo_actualizarMetas_def
      split: prod.splits sum.splits)

lemma repartir_parcial:
  assumes ids: "distinct (map meta_id ms)"
    and col: "\<And>m. m \<in> set ms \<Longrightarrow> Meta_findById (meta_id m) col = Some m"
    and k: "k < length ms"
  shows "(\<forall>j<k. Meta_findById (meta_id (ms ! j)) (snd (repartir (sin_fallos env) r (take k ms) col))
             = Some ((ms ! j)\<lparr>montoActual := montoActual (ms ! j)
                  + montoAAgregar_de (montoRestante_tras r (take j ms)) (ms ! j)\<rparr>))
       \<and> (\<forall>j. k \<le> j \<and> j < length ms \<longrightarrow>
             Meta_findById (meta_id (ms ! j)) (snd (repartir (sin_fallos env) r (take k ms) col))
               = Some (ms ! j))"
proof (intro conjI allI impI)
  fix j
  assume j: "j < k"
  have d: "distinct (map meta_id (take k ms))" using ids by (simp add: take_map [symmetric])
  have jl: "j < length (take k ms)" using j k by simp
  have tj: "take k ms ! j = ms ! j" using j by simp
  have tt: "take j (take k ms) = take j ms" using j by (simp add: min_def)
  have "ms ! j \<in> set ms" using j k by simp
  then have c: "Meta_findById (meta_id (ms ! j)) col = Some (ms ! j)" by (rule col)
  from repartir_aporte [of "sin_fallos env" "take k ms" j r col, OF falla_sin_fallos d jl]
  show "Meta_findById (meta_id (ms ! j)) (snd (repartir (sin_fallos env) r (take k ms) col))
             = Some ((ms ! j)\<lparr>montoActual := montoActual (ms ! j)
                  + montoAAgregar_de (montoRestante_tras r (take j ms)) (ms ! j)\<rparr>)"
    by (simp only: tj tt c option.map)
next
  fix j
  assume j: "k \<le> j \<and> j < length ms"
  have "meta_id (ms ! j) \<notin> meta_id ` set (take k ms)"
  proof
    assume "meta_id (ms ! j) \<in> meta_id ` set (take k ms)"
    then obtain i where i: "i < k" "i < length ms" "meta_id (ms ! i) = meta_id (ms ! j)"
      by (auto simp: in_set_conv_nth)
    with ids j have "i = j"
      by (metis distinct_conv_nth length_map nth_map)
    with i(1) j show False by simp
  qed
  from repartir_otros [OF this]
  have "Meta_findById (meta_id (ms ! j)) (snd (repartir (sin_fallos env) r (take k ms) col))
        = Meta_findById (meta_id (ms ! j)) col" .
  also have "\<dots> = Some (ms ! j)" using j by (intro col) simp
  finally show "Meta_findById (meta_id (ms ! j)) (snd (repartir (sin_fallos env) r (take k ms) col))
               = Some (ms ! j)" .
qed


text \<open>
  Claim C7.  Best-effort error handling of the allocator.  Whatever the store rejects
  during a run, the allocator returns normally to its caller.  So when the request passes
  validation and the transaction is saved and populated, \<^verbatim>\<open>POST /\<close> answers 201 with
  the created transaction, which is in the collection, also when the allocation fails.  A
  rejected query for the goals leaves the goals as they were and writes one line to the
  console.  A rejected update inside the loop writes one line to the console and stops
  the loop at some position of the processing order: the collection is the one a run
  without rejections produces on the goals before that position, so (identifiers being
  unique) those goals have received their amounts and the goals from that position on
  are as they were.
\<close>

theorem errores_de_asignacion_no_se_propagan:
  "fst (actualizarMetasConIngreso env u montoIngreso db) = Inr ()
   \<and> (validacionTransaccion req
        \<and> validar_transaccion (ahora env) (nuevaTransaccion env u req)
        \<and> \<not> falla env SaveTransaccion \<and> \<not> falla env Populate
      \<longrightarrow> fst (crear_transaccion env u req db)
            = TransaccionCreada
                ((nuevaTransaccion env u req)\<lparr>tx_id := nuevo_id (transacciones db)\<rparr>)
          \<and> codigo_tx (fst (crear_transaccion env u req db)) = 201
          \<and> transacciones (snd (crear_transaccion env u req db))
              = transacciones db
                @ [(nuevaTransaccion env u req)\<lparr>tx_id := nuevo_id (transacciones db)\<rparr>])
   \<and> (falla env FindMetas
      \<longrightarrow> metas (snd (actualizarMetasConIngreso env u montoIngreso db)) = metas db
          \<and> consola (snd (actualizarMetasConIngreso env u montoIngreso db))
              = consola db @ [ErrorActualizandoMetas ErrorAlmacen])
   \<and> (\<not> falla env FindMetas
        \<and> fst (repartir env (montoRestante_inicial montoIngreso)
                 (Meta_find_activas u (metas db)) (metas db)) = Inl e
      \<longrightarrow> consola (snd (actualizarMetasConIngreso env u montoIngreso db))
            = consola db @ [ErrorActualizandoMetas e]
          \<and> (\<exists>k < length (Meta_find_activas u (metas db)).
                falla env (IncMeta (meta_id (Meta_find_activas u (metas db) ! k)))
                \<and> metas (snd (actualizarMetasConIngreso env u montoIngreso db))
                    = snd (repartir (sin_fallos env) (montoRestante_inicial montoIngreso)
                             (take k (Meta_find_activas u (metas db))) (metas db))
                \<and> (ids_unicos (metas db) \<longrightarrow>
                     (\<forall>j<k. Meta_findById (meta_id (Meta_find_activas u (metas db) ! j))
                               (metas (snd (actualizarMetasConIngreso env u montoIngreso db)))
                             = Some ((Meta_find_activas u (metas db) ! j)
                                 \<lparr>montoActual := montoActual (Meta_find_activas u (metas db) ! j)
                                    + montoAAgregar_de
                                        (montoRestante_tras (montoRestante_inicial montoIngreso)
                                           (take j (Meta_find_activas u (metas db))))
                                        (Meta_find_activas u (metas db) ! j)\<rparr>))
                     \<and> (\<forall>j. k \<le> j \<and> j < length (Meta_find_activas u (metas db)) \<longrightarrow>
                           Meta_findById (meta_id (Meta_find_activas u (metas db) ! j))
                               (metas (snd (actualizarMetasConIngreso env u montoIngreso db)))
                             = Some (Meta_find_activas u (metas db) ! j)))))"
proof -
  let ?ms = "Meta_find_activas u (metas db)"
  let ?r0 = "montoRestante_inicial montoIngreso"
  let ?db' = "snd (actualizarMetasConIngreso env u montoIngreso db)"
  let ?t = "(nuevaTransaccion env u req)\<lparr>tx_id := nuevo_id (transacciones db)\<rparr>"
  have 1: "fst (actualizarMetasConIngreso env u montoIngreso db) = Inr ()"
    by (rule actualizarMetas_resultado)
  have 2: "validacionTransaccion req
        \<and> validar_transaccion (ahora env) (nuevaTransaccion env u req)
        \<and> \<not> falla env SaveTransaccion \<and> \<not> falla env Populate
      \<longrightarrow> fst (crear_transaccion env u req db) = TransaccionCreada ?t
          \<and> codigo_tx (fst (crear_transaccion env u req db)) = 201
          \<and> transacciones (snd (crear_transaccion env u req db)) = transacciones db @ [?t]"
  proof
    assume h: "validacionTransaccion req
        \<and> validar_transaccion (ahora env) (nuevaTransaccion env u req)
        \<and> \<not> falla env SaveTransaccion \<and> \<not> falla env Populate"
    then have c: "crear_transaccion env u req db =
      (TransaccionCreada ?t,
       if s_tipo req = Ingreso
       then snd (actualizarMetasConIngreso env u (s_monto req)
              (db\<lparr>transacciones := transacciones db @ [?t]\<rparr>))
       else db\<lparr>transacciones := transacciones db @ [?t]\<rparr>)"
      using crear_transaccion_creada by blast
    show "fst (crear_transaccion env u req db) = TransaccionCreada ?t
          \<and> codigo_tx (fst (crear_transaccion env u req db)) = 201
          \<and> transacciones (snd (crear_transaccion env u req db)) = transacciones db @ [?t]"
      unfolding c by (simp add: actualizarMetas_transacciones)
  qed
  have 3: "falla env FindMetas
      \<longrightarrow> metas ?db' = metas db
          \<and> consola ?db' = consola db @ [ErrorActualizandoMetas ErrorAlmacen]"
    by (simp add: actualizarMetas_metas actualizarMetas_consola)
  have 4: "\<not> falla env FindMetas \<and> fst (repartir env ?r0 ?ms (metas db)) = Inl e
      \<longrightarrow> consola ?db' = consola db @ [ErrorActualizandoMetas e]
          \<and> (\<exists>k < length ?ms.
                falla env (IncMeta (meta_id (?ms ! k)))
                \<and> metas ?db' = snd (repartir (sin_fallos env) ?r0 (take k ?ms) (metas db))
                \<and> (ids_unicos (metas db) \<longrightarrow>
                     (\<forall>j<k. Meta_findById (meta_id (?ms ! j)) (metas ?db')
                             = Some ((?ms ! j)
                                 \<lparr>montoActual := montoActual (?ms ! j)
                                    + montoAAgregar_de (montoRestante_tras ?r0 (take j ?ms))
                                        (?ms ! j)\<rparr>))
                     \<and> (\<forall>j. k \<le> j \<and> j < length ?ms \<longrightarrow>
                           Meta_findById (meta_id (?ms ! j)) (metas ?db') = Some (?ms ! j))))"
  proof
    assume h: "\<not> falla env FindMetas \<and> fst (repartir env ?r0 ?ms (metas db)) = Inl e"
    then have nfm: "\<not> falla env FindMetas" and err: "fst (repartir env ?r0 ?ms (metas db)) = Inl e"
      by blast+
    have con: "consola ?db' = consola db @ [ErrorActualizandoMetas e]"
      using nfm err by (simp add: actualizarMetas_consola)
    have met: "metas ?db' = snd (repartir env ?r0 ?ms (metas db))"
      using nfm by (simp add: actualizarMetas_metas)
    from repartir_fallo [OF err] obtain k where k: "k < length ?ms"
      "falla env (IncMeta (meta_id (?ms ! k)))"
      "snd (repartir env ?r0 ?ms (metas db))
         = snd (repartir (sin_fallos env) ?r0 (take k ?ms) (metas db))"
      by blast
    have par: "ids_unicos (metas db) \<longrightarrow>
                     (\<forall>j<k. Meta_findById (meta_id (?ms ! j)) (metas ?db')
                             = Some ((?ms ! j)
                                 \<lparr>montoActual := montoActual (?ms ! j)
                                    + montoAAgregar_de (montoRestante_tras ?r0 (take j ?ms))
                                        (?ms ! j)\<rparr>))
                     \<and> (\<forall>j. k \<le> j \<and> j < length ?ms \<longrightarrow>
                           Meta_findById (meta_id (?ms ! j)) (metas ?db') = Some (?ms ! j))"
    proof
      assume ids: "ids_unicos (metas db)"
      have col: "\<And>m. m \<in> set ?ms \<Longrightarrow> Meta_findById (meta_id m) (metas db) = Some m"
        using Meta_findById_Some [OF ids] set_Meta_find_activas [of u "metas db"] by blast
      from repartir_parcial [of ?ms "metas db" k env ?r0, OF ids_activas_distintos [OF ids] col k(1)]
      show "(\<forall>j<k. Meta_findById (meta_id (?ms ! j)) (metas ?db')
                             = Some ((?ms ! j)
                                 \<lparr>montoActual := montoActual (?ms ! j)
                                    + montoAAgregar_de (montoRestante_tras ?r0 (take j ?ms))
                                        (?ms ! j)\<rparr>))
                     \<and> (\<forall>j. k \<le> j \<and> j < length ?ms \<longrightarrow>
                           Meta_findById (meta_id (?ms ! j)) (metas ?db') = Some (?ms ! j))"
        unfolding met k(3) by blast
    qed
    from k(1) k(2) met k(3) par have "\<exists>k < length ?ms.
                falla env (IncMeta (meta_id (?ms ! k)))
                \<and> metas ?db' = snd (repartir (sin_fallos env) ?r0 (take k ?ms) (metas db))
                \<and> (ids_unicos (metas db) \<longrightarrow>
                     (\<forall>j<k. Meta_findById (meta_id (?ms ! j)) (metas ?db')
                             = Some ((?ms ! j)
                                 \<lparr>montoActual := montoActual (?ms ! j)
                                    + montoAAgregar_de (montoRestante_tras ?r0 (take j ?ms))
                                        (?ms ! j)\<rparr>))
                     \<and> (\<forall>j. k \<le> j \<and> j < length ?ms \<longrightarrow>
                           Meta_findById (meta_id (?ms ! j)) (metas ?db') = Some (?ms ! j)))"
      by (intro exI [of _ k]) (simp only: simp_thms)
    with con show "consola ?db' = consola db @ [ErrorActualizandoMetas e]
          \<and> (\<exists>k < length ?ms.
                falla env (IncMeta (meta_id (?ms ! k)))
                \<and> metas ?db' = snd (repartir (sin_fallos env) ?r0 (take k ?ms) (metas db))
                \<and> (ids_unicos (metas db) \<longrightarrow>
                     (\<forall>j<k. Meta_findById (meta_id (?ms ! j)) (metas ?db')
                             = Some ((?ms ! j)
                                 \<lparr>montoActual := montoActual (?ms ! j)
                                    + montoAAgregar_de (montoRestante_tras ?r0 (take j ?ms))
                                        (?ms ! j)\<rparr>))
                     \<and> (\<forall>j. k \<le> j \<and> j < length ?ms \<longrightarrow>
                           Meta_findById (meta_id (?ms ! j)) (metas ?db') = Some (?ms ! j))))"
      by (rule conjI)
  qed
  show ?thesis
    by (rule conjI [OF 1 conjI [OF 2 conjI [OF 3 4]]])
qed


theorem errores_de_asignacion_no_se_propagan_witness:
  "validacionTransaccion (solicitud_salario 1500)
   \<and> validar_transaccion (ahora entorno_falla_2)
        (nuevaTransaccion entorno_falla_2 1 (solicitud_salario 1500))
   \<and> \<not> falla entorno_falla_2 SaveTransaccion \<and> \<not> falla entorno_falla_2 Populate
   \<and> \<not> falla entorno_falla_2 FindMetas
   \<and> fst (repartir entorno_falla_2 (montoRestante_inicial 1500)
            (Meta_find_activas 1 (metas almacen_ejemplo)) (metas almacen_ejemplo))
       = Inl ErrorAlmacen
   \<and> codigo_tx (fst (crear_transaccion entorno_falla_2 1 (solicitud_salario 1500)
                        almacen_ejemplo)) = 201
   \<and> length (transacciones (snd (crear_transaccion entorno_falla_2 1 (solicitud_salario 1500)
                                   almacen_ejemplo))) = 1
   \<and> consola (snd (actualizarMetasConIngreso entorno_falla_2 1 1500 almacen_ejemplo))
       = [ErrorActualizandoMetas ErrorAlmacen]
   \<and> map montoActual (metas (snd (actualizarMetasConIngreso entorno_falla_2 1 1500
                                      almacen_ejemplo))) = [90, 100, 0]"
proof -
  have h1: "validacionTransaccion (solicitud_salario 1500)" by code_simp
  have h2: "validar_transaccion (ahora entorno_falla_2)
        (nuevaTransaccion entorno_falla_2 1 (solicitud_salario 1500))" by code_simp
  have h3: "\<not> falla entorno_falla_2 SaveTransaccion" by (simp add: entorno_falla_2_def)
  have h4: "\<not> falla entorno_falla_2 Populate" by (simp add: entorno_falla_2_def)
  have h5: "\<not> falla entorno_falla_2 FindMetas" by (simp add: entorno_falla_2_def)
  have h6: "fst (repartir entorno_falla_2 (montoRestante_inicial 1500)
            (Meta_find_activas 1 (metas almacen_ejemplo)) (metas almacen_ejemplo))
       = Inl ErrorAlmacen" by code_simp
  note t = errores_de_asignacion_no_se_propagan [of entorno_falla_2 1 1500 almacen_ejemplo
      "solicitud_salario 1500" ErrorAlmacen]
  from t h1 h2 h3 h4
  have c1: "codigo_tx (fst (crear_transaccion entorno_falla_2 1 (solicitud_salario 1500)
                        almacen_ejemplo)) = 201" by blast
  from t h1 h2 h3 h4
  have "transacciones (snd (crear_transaccion entorno_falla_2 1 (solicitud_salario 1500)
                                   almacen_ejemplo))
        = transacciones almacen_ejemplo
          @ [(nuevaTransaccion entorno_falla_2 1 (solicitud_salario 1500))
               \<lparr>tx_id := nuevo_id (transacciones almacen_ejemplo)\<rparr>]" by blast
  then have c2: "length (transacciones (snd (crear_transaccion entorno_falla_2 1
                  (solicitud_salario 1500) almacen_ejemplo))) = 1"
    by (simp add: almacen_ejemplo_def)
  from t h5 h6
  have "consola (snd (actualizarMetasConIngreso entorno_falla_2 1 1500 almacen_ejemplo))
       = consola almacen_ejemplo @ [ErrorActualizandoMetas ErrorAlmacen]" by blast
  then have c3: "consola (snd (actualizarMetasConIngreso entorno_falla_2 1 1500 almacen_ejemplo))
       = [ErrorActualizandoMetas ErrorAlmacen]" by (simp add: almacen_ejemplo_def)
  have c4: "map montoActual (metas (snd (actualizarMetasConIngreso entorno_falla_2 1 1500
                                      almacen_ejemplo))) = [90, 100, 0]" by code_simp
  from h1 h2 h3 h4 h5 h6 c1 c2 c3 c4 show ?thesis by blast
qed

lemma actualizar_transaccion_metas:
  "metas (snd (actualizar_transaccion env u i req db)) = metas db"
  by (simp add: actualizar_transaccion_def capturar_actualizar_def Let_def
      split: option.splits)

lemma crear_transaccion_gasto_metas:
  "s_tipo req = Gasto \<Longrightarrow> metas (snd (crear_transaccion env u req db)) = metas db"
  by (simp add: crear_transaccion_def Transaccion_save_def capturar_crear_def
      nuevaTransaccion_def Let_def)

text \<open>
  Claim C10.  Allocation runs on the creation path only.  \<^verbatim>\<open>PUT /:id\<close> leaves the
  collection of goals as it was, for every request (also one whose \<open>tipo\<close> is income) and
  every outcome; so does \<^verbatim>\<open>POST /\<close> for an expense.  \<^verbatim>\<open>POST /\<close> for an income does
  change goals: in the example an income of 1000 fills the goal from 90 to 100, and a
  later update of that transaction to an income of 2000 succeeds and leaves the goal at
  100.
\<close>

theorem solo_la_creacion_asigna:
  "metas (snd (actualizar_transaccion env u i req db)) = metas db
   \<and> (s_tipo req = Gasto \<longrightarrow> metas (snd (crear_transaccion env u req db)) = metas db)
   \<and> map montoActual
        (metas (snd (crear_transaccion entorno_ok 1 (solicitud_salario 1000) almacen_viaje)))
       = [100]
   \<and> map montoActual (metas almacen_viaje) = [90]
   \<and> s_tipo (solicitud_salario 2000) = Ingreso
   \<and> codigo_tx (fst (actualizar_transaccion entorno_ok 1 1 (solicitud_salario 2000)
         (snd (crear_transaccion entorno_ok 1 (solicitud_salario 1000) almacen_viaje)))) = 200
   \<and> map tx_monto (transacciones (snd (actualizar_transaccion entorno_ok 1 1
         (solicitud_salario 2000)
         (snd (crear_transaccion entorno_ok 1 (solicitud_salario 1000) almacen_viaje)))))
       = [2000]
   \<and> map montoActual (metas (snd (actualizar_transaccion entorno_ok 1 1
         (solicitud_salario 2000)
         (snd (crear_transaccion entorno_ok 1 (solicitud_salario 1000) almacen_viaje)))))
       = [100]"
proof -
  have 1: "metas (snd (actualizar_transaccion env u i req db)) = metas db"
    by (rule actualizar_transaccion_metas)
  have 2: "s_tipo req = Gasto \<longrightarrow> metas (snd (crear_transaccion env u req db)) = metas db"
    using crear_transaccion_gasto_metas by blast
  have 3: "map montoActual
        (metas (snd (crear_transaccion entorno_ok 1 (solicitud_salario 1000) almacen_viaje)))
       = [100]" by code_simp
  have 4: "map montoActual (metas almacen_viaje) = [90]" by code_simp
  have 5: "s_tipo (solicitud_salario 2000) = Ingreso" by (simp add: solicitud_salario_def)
  have 6: "codigo_tx (fst (actualizar_transaccion entorno_ok 1 1 (solicitud_salario 2000)
         (snd (crear_transaccion entorno_ok 1 (solicitud_salario 1000) almacen_viaje)))) = 200"
    by code_simp
  have 7: "map tx_monto (transacciones (snd (actualizar_transaccion entorno_ok 1 1
         (solicitud_salario 2000)
         (snd (crear_transaccion entorno_ok 1 (solicitud_salario 1000) almacen_viaje)))))
       = [2000]" by code_simp
  have 8: "map montoActual (metas (snd (actualizar_transaccion entorno_ok 1 1
         (solicitud_salario 2000)
         (snd (crear_transaccion entorno_ok 1 (solicitud_salario 1000) almacen_viaje)))))
       = [100]" by code_simp
  from 1 2 3 4 5 6 7 8 show ?thesis by blast
qed


theorem solo_la_creacion_asigna_witness:
  "s_tipo solicitud_compra = Gasto
   \<and> codigo_tx (fst (crear_transaccion entorno_ok 1 solicitud_compra almacen_viaje)) = 201
   \<and> metas (snd (crear_transaccion entorno_ok 1 solicitud_compra almacen_viaje))
       = metas almacen_viaje
   \<and> metas (snd (actualizar_transaccion entorno_ok 1 1 (solicitud_salario 2000) almacen_viaje))
       = metas almacen_viaje"
proof -
  have h: "s_tipo solicitud_compra = Gasto" by (simp add: solicitud_compra_def)
  have c: "codigo_tx (fst (crear_transaccion entorno_ok 1 solicitud_compra almacen_viaje)) = 201"
    by code_simp
  note t = solo_la_creacion_asigna [of entorno_ok 1 1 "solicitud_salario 2000" almacen_viaje]
  note t' = solo_la_creacion_asigna [of entorno_ok 1 1 solicitud_compra almacen_viaje]
  from t have a: "metas (snd (actualizar_transaccion entorno_ok 1 1 (solicitud_salario 2000)
                      almacen_viaje)) = metas almacen_viaje" by blast
  from t' h have b: "metas (snd (crear_transaccion entorno_ok 1 solicitud_compra almacen_viaje))
       = metas almacen_viaje" by blast
  from h c a b show ?thesis by blast
qed


section \<open>The order in which goals are funded\<close>

lemma fecha_menor_irrefl: "\<not> fecha_menor x x"
  by (cases x) auto








section \<open>Manual contributions\<close>













end
